theory Spec2Isabelle
  imports Main "HOL-Library.Word" "HOL-Library.Product_Lexorder" "HOL-Library.Multiset"
begin

section \<open>The DPoS query API of go-themis (consensus/dpos/api.go)\<close>

text \<open>
  The file \<^verbatim>\<open>consensus/dpos/api.go\<close> holds six read-only RPC operations. Each of them
  talks to two collaborators that live outside the file: the chain reader
  (\<^verbatim>\<open>api.chain.CurrentHeader()\<close>, \<^verbatim>\<open>api.chain.GetHeaderByNumber(n)\<close>) and the
  contract evaluation entry point (\<^verbatim>\<open>api.dpos.Call(msg)\<close>). An operation is embedded
  as a program that asks these collaborators questions and continues with their
  answers; running a program against a fixed pair of collaborators yields the Go
  function's outcome together with the list of collaborator calls it made.
\<close>

subsection \<open>Data\<close>

type_synonym address = "160 word"   \<comment> \<open>\<^verbatim>\<open>common.Address\<close>, 20 bytes\<close>
type_synonym bytes = "8 word list"   \<comment> \<open>\<^verbatim>\<open>[]byte\<close>\<close>
type_synonym uint64 = "64 word"
type_synonym int64 = "64 word"   \<comment> \<open>read through \<open>sint\<close>\<close>

text \<open>The three fields of \<^verbatim>\<open>types.Header\<close> that the file reads.\<close>

record Header =
  Number :: int
  ActiveProducers :: "address list"
  PendingProducers :: "address list"

text \<open>\<^verbatim>\<open>core.NewCallMsg(to, data, height)\<close>: the message handed to \<^verbatim>\<open>api.dpos.Call\<close>.\<close>

record CallMsg =
  To :: address
  Data :: bytes
  Height :: uint64

record ProducerInfo =
  Addr :: address
  Weight :: int

record ProducersInfo =
  Producers :: "ProducerInfo list"
  Size :: int

record Voteinfo =
  Proxy :: address
  VoteProducers :: "address list"
  Staked :: int
  VoteWeight :: int

record ProposalInfo =
  Id :: int
  Status :: bool
  Proposer :: address
  ProposeTime :: int
  MaliciousBP :: address
  Keys :: "256 word list"
  Values :: "int list"
  Flag :: "8 word"
  ApproveVoteCount :: int
  DisapproveCount :: int

text \<open>
  Go errors are values. \<open>errInvalidInput\<close> is the package variable of line 53
  (message "invalid input"); \<open>errUnknownBlock\<close> and \<open>errTooFewProducers\<close> are package
  variables declared in another file of the package; \<open>errors_New msg\<close> is a fresh
  \<^verbatim>\<open>errors.New(msg)\<close>. The collaborators return errors of the same type.
\<close>

datatype error =
  errInvalidInput
  | errUnknownBlock
  | errTooFewProducers
  | errors_New string

datatype panic = nil_dereference | index_out_of_range

text \<open>What a Go call ends in: a returned value, a returned error, or a run-time panic.\<close>

datatype 'a result = Ok 'a | Err error | Panic panic

subsection \<open>\<^verbatim>\<open>math/big\<close> conversions\<close>

text \<open>
  \<^verbatim>\<open>(*big.Int).Uint64()\<close> returns the low 64 bits of the absolute value;
  \<^verbatim>\<open>(*big.Int).Int64()\<close> reinterprets those bits as signed and negates them when the
  number is negative. Neither checks that the number fits.
\<close>

definition Uint64 :: "int \<Rightarrow> uint64" where
  "Uint64 x = word_of_int \<bar>x\<bar>"

definition Int64 :: "int \<Rightarrow> int64" where
  "Int64 x = (let v = word_of_int \<bar>x\<bar> in if x < 0 then - v else v)"

subsection \<open>Programs over the collaborators\<close>

text \<open>
  A program either returns, or asks the chain reader for the current header, or asks
  it for the header with a given number, or asks the evaluation entry point to run a
  call message. Both header lookups may answer with no header (a nil pointer).
\<close>

datatype 'a prog =
  Return "'a result"
  | AskCurrentHeader "Header option \<Rightarrow> 'a prog"
  | AskHeaderByNumber uint64 "Header option \<Rightarrow> 'a prog"
  | AskCall CallMsg "error + bytes \<Rightarrow> 'a prog"

text \<open>Calling one operation from another: the callee runs first, the caller goes on with its outcome.\<close>

primrec bindP :: "'a prog \<Rightarrow> ('a result \<Rightarrow> 'b prog) \<Rightarrow> 'b prog" where
  "bindP (Return r) f = f r"
| "bindP (AskCurrentHeader k) f = AskCurrentHeader (\<lambda>h. bindP (k h) f)"
| "bindP (AskHeaderByNumber n k) f = AskHeaderByNumber n (\<lambda>h. bindP (k h) f)"
| "bindP (AskCall m k) f = AskCall m (\<lambda>d. bindP (k d) f)"

text \<open>The receiver \<^verbatim>\<open>api\<close>: its chain reader and its \<^verbatim>\<open>dpos.Call\<close>, as functions of their inputs.\<close>

record API =
  chain_CurrentHeader :: "Header option"
  chain_GetHeaderByNumber :: "uint64 \<Rightarrow> Header option"
  dpos_Call :: "CallMsg \<Rightarrow> error + bytes"

datatype event = EvCurrentHeader | EvGetHeaderByNumber uint64 | EvCall CallMsg

definition after :: "event \<Rightarrow> 'a result \<times> event list \<Rightarrow> 'a result \<times> event list" where
  "after ev p = (fst p, ev # snd p)"

text \<open>Running a program: the outcome, and the collaborator calls in the order they were made.\<close>

primrec run :: "API \<Rightarrow> 'a prog \<Rightarrow> 'a result \<times> event list" where
  "run api (Return r) = (r, [])"
| "run api (AskCurrentHeader k) = after EvCurrentHeader (run api (k (chain_CurrentHeader api)))"
| "run api (AskHeaderByNumber n k) =
     after (EvGetHeaderByNumber n) (run api (k (chain_GetHeaderByNumber api n)))"
| "run api (AskCall m k) = after (EvCall m) (run api (k (dpos_Call api m)))"

subsection \<open>Resolving the requested block\<close>

text \<open>
  The five operations that take a block number open with the same lines
  (70-80, 88-98, 107-117, 205-215, 264-274):
  \<^verbatim>\<open>
  header := api.chain.CurrentHeader()
  if blockNumber != nil && (*blockNumber).Cmp(big.NewInt(0)) > 0 && (*blockNumber).Cmp(header.Number) < 0 {
      header = api.chain.GetHeaderByNumber(blockNumber.Uint64())
  } else if blockNumber != nil && ((*blockNumber).Cmp(big.NewInt(0)) < 0 || (*blockNumber).Cmp(header.Number) > 0) {
      return nil, errInvalidInput
  }
  if header == nil {
      return nil, errUnknownBlock
  }
  \<close>
  They are embedded once, with the rest of the operation as the continuation \<open>k\<close>.
  Go evaluates \<^verbatim>\<open>&&\<close> and \<^verbatim>\<open>||\<close> left to right and stops early, so \<^verbatim>\<open>header.Number\<close>
  is read (and panics on a nil current header) only where the conditions before it
  let the evaluation get there.
\<close>

definition ensureHeader :: "Header option \<Rightarrow> (Header \<Rightarrow> 'a prog) \<Rightarrow> 'a prog" where
  "ensureHeader header k =
     (case header of None \<Rightarrow> Return (Err errUnknownBlock) | Some h \<Rightarrow> k h)"

definition resolveHeader :: "int option \<Rightarrow> (Header \<Rightarrow> 'a prog) \<Rightarrow> 'a prog" where
  "resolveHeader blockNumber k =
     AskCurrentHeader (\<lambda>header.
       case blockNumber of
         None \<Rightarrow> ensureHeader header k
       | Some bn \<Rightarrow>
           if 0 < bn then
             (case header of
                None \<Rightarrow> Return (Panic nil_dereference)
              | Some cur \<Rightarrow>
                  if bn < Number cur then
                    AskHeaderByNumber (Uint64 bn) (\<lambda>header. ensureHeader header k)
                  else if bn < 0 \<or> Number cur < bn then Return (Err errInvalidInput)
                  else ensureHeader header k)
           else if bn < 0 then Return (Err errInvalidInput)
           else
             (case header of
                None \<Rightarrow> Return (Panic nil_dereference)
              | Some cur \<Rightarrow>
                  if Number cur < bn then Return (Err errInvalidInput)
                  else ensureHeader header k))"

subsection \<open>GetActiveProducers and GetPendingProducer (lines 68-101)\<close>

definition GetActiveProducers :: "int option \<Rightarrow> address list prog" where
  "GetActiveProducers blockNumber =
     resolveHeader blockNumber (\<lambda>header. Return (Ok (ActiveProducers header)))"

definition GetPendingProducer :: "int option \<Rightarrow> address list prog" where
  "GetPendingProducer blockNumber =
     resolveHeader blockNumber (\<lambda>header. Return (Ok (PendingProducers header)))"

subsection \<open>The calling convention and the contract names\<close>

text \<open>
  The file packs call data and unpacks results through the ABI objects of the
  \<^verbatim>\<open>core\<close> package (\<^verbatim>\<open>MainABI()\<close>, \<^verbatim>\<open>RegABI()\<close>, \<^verbatim>\<open>VoteABI()\<close>) and sends the registry and
  proposal queries to \<^verbatim>\<open>core.MainSystemContractAddr\<close>. That package is not part of the
  file, so its packers, unpackers and the address are parameters: one field per
  \<^verbatim>\<open>Pack\<close> or \<^verbatim>\<open>Unpack\<close> call site, named after the ABI and the method, each returning
  an error or the packed bytes (the decoded values in the order of the output slice).
\<close>

record Core =
  MainSystemContractAddr :: address
  MainABI_Pack_getSystemContract :: "string \<Rightarrow> error + bytes"
  MainABI_Unpack_getSystemContract :: "bytes \<Rightarrow> error + address"
  RegABI_Pack_getAllProducersInfo :: "error + bytes"
  RegABI_Unpack_getAllProducersInfo :: "bytes \<Rightarrow> error + address list \<times> int list \<times> int"
  VoteABI_Pack_getVoteInfo :: "address option \<Rightarrow> error + bytes"
  VoteABI_Unpack_getVoteInfo :: "bytes \<Rightarrow> error + address \<times> address list \<times> int \<times> int"
  MainABI_Pack_getProposal :: "error + bytes"
  MainABI_Unpack_getProposal :: "bytes \<Rightarrow> error + ProposalInfo"

definition regContract :: string where
  "regContract = ''system.regContract''"

definition voteContract :: string where
  "voteContract = ''system.voteContract''"

subsection \<open>GetSystemContract (lines 334-362)\<close>

text \<open>
  The empty name is refused first, with a fresh \<^verbatim>\<open>errors.New("null string")\<close>. Otherwise
  the current header is fetched, the name is packed, and the registry is asked at the
  current header's number. A packing error returns before \<^verbatim>\<open>header.Number\<close> is read.
\<close>

definition GetSystemContract :: "Core \<Rightarrow> string \<Rightarrow> address prog" where
  "GetSystemContract c contractName =
     (if contractName = [] then Return (Err (errors_New ''null string''))
      else
        AskCurrentHeader (\<lambda>header.
          case MainABI_Pack_getSystemContract c contractName of
            Inl err \<Rightarrow> Return (Err err)
          | Inr inputData \<Rightarrow>
              (case header of
                 None \<Rightarrow> Return (Panic nil_dereference)
               | Some cur \<Rightarrow>
                   AskCall \<lparr>To = MainSystemContractAddr c, Data = inputData,
                            Height = Uint64 (Number cur)\<rparr>
                     (\<lambda>answer.
                       case answer of
                         Inl err \<Rightarrow> Return (Err err)
                       | Inr data \<Rightarrow>
                           (case MainABI_Unpack_getSystemContract c data of
                              Inl err \<Rightarrow> Return (Err err)
                            | Inr res \<Rightarrow> Return (Ok res))))))"

subsection \<open>The ranking step of GetAllProducers (lines 153-200)\<close>

text \<open>\<^verbatim>\<open>sortNum{serial, num}\<close>: an index into the weight array and the weight found there.\<close>

record sortNum =
  serial :: nat
  num :: int

type_synonym sortNumSlice = "sortNum list"

text \<open>
  Lines 159-163, \<^verbatim>\<open>for i, voteWeight := range weight { sortTable = append(sortTable, &sortNum{i, voteWeight}) }\<close>.
\<close>

definition makeSortTable :: "int list \<Rightarrow> sortNumSlice" where
  "makeSortTable weight =
     map (\<lambda>(i, voteWeight). \<lparr>serial = i, num = voteWeight\<rparr>) (enumerate 0 weight)"

text \<open>
  Modelled from the spec: \<^verbatim>\<open>sortNumSlice.GetTop\<close> is declared in another file of the
  package, which is not among the sources. Section 4.4 of the specification describes
  it: sort the pairs by weight descending, ties broken by ascending original index, and
  return the first \<open>targetCount\<close> entries of the sorted sequence.
\<close>

definition rankKey :: "sortNum \<Rightarrow> int \<times> nat" where
  "rankKey e = (- num e, serial e)"

definition GetTop :: "sortNumSlice \<Rightarrow> nat \<Rightarrow> sortNumSlice" where
  "GetTop s n = take n (sort_key rankKey s)"

text \<open>
  Lines 187-193, the loop \<^verbatim>\<open>for i = 0; i < getNumber; i++\<close> that pairs each ranked entry
  with the address at its serial. An index beyond the ranked slice or beyond the
  address array is a run-time panic in Go.
\<close>

function collectTop ::
  "address list \<Rightarrow> sortNumSlice \<Rightarrow> nat \<Rightarrow> nat \<Rightarrow> ProducerInfo list \<Rightarrow> ProducerInfo list result"
where
  "collectTop producersAddr sortedProducers getNumber i topProducers =
     (if i < getNumber then
        if i < length sortedProducers then
          if serial (sortedProducers ! i) < length producersAddr then
            collectTop producersAddr sortedProducers getNumber (Suc i)
              (topProducers @
                 [\<lparr>Addr = producersAddr ! serial (sortedProducers ! i),
                   Weight = num (sortedProducers ! i)\<rparr>])
          else Panic index_out_of_range
        else Panic index_out_of_range
      else Ok topProducers)"
  by pat_completeness auto
termination
  by (relation "measure (\<lambda>(producersAddr, sortedProducers, getNumber, i, topProducers). getNumber - i)")
    auto

declare collectTop.simps [simp del]

text \<open>
  Lines 165-183 choose \<^verbatim>\<open>getNumber\<close>. \<^verbatim>\<open>sizeNumber\<close> is a pointer that the code
  dereferences without a nil check (line 168). \<^verbatim>\<open>len\<close> is \<^verbatim>\<open>uint64(len(weight))\<close>; a Go
  slice is shorter than \<open>2^63\<close>, so that conversion keeps the length and the
  comparisons of lines 173 and 178 are comparisons of natural numbers.
\<close>

definition chooseNumber :: "nat \<Rightarrow> int \<Rightarrow> int64 \<Rightarrow> nat result" where
  "chooseNumber len amount size64 =
     (if sint size64 < 0 then Ok len
      else if size64 = 0 then
        (if len < unat (Uint64 amount) then Err errTooFewProducers
         else Ok (unat (Uint64 amount)))
      else
        (if len < unat size64 then Ok len else Ok (unat size64)))"

definition rankProducers ::
  "address list \<Rightarrow> int list \<Rightarrow> int \<Rightarrow> int option \<Rightarrow> ProducersInfo result"
where
  "rankProducers producersAddr weight amount sizeNumber =
     (let sortTable = makeSortTable weight;
          len = length weight
      in case sizeNumber of
           None \<Rightarrow> Panic nil_dereference
         | Some sz \<Rightarrow>
             (case chooseNumber len amount (Int64 sz) of
                Err err \<Rightarrow> Err err
              | Panic p \<Rightarrow> Panic p
              | Ok getNumber \<Rightarrow>
                  (case collectTop producersAddr (GetTop sortTable getNumber) getNumber 0 [] of
                     Err err \<Rightarrow> Err err
                   | Panic p \<Rightarrow> Panic p
                   | Ok topProducers \<Rightarrow> Ok \<lparr>Producers = topProducers, Size = amount\<rparr>)))"

subsection \<open>GetAllProducers (lines 104-201)\<close>

text \<open>
  After the block is resolved the operation looks up the registration contract (any
  error of the lookup is replaced by a fresh one), packs the method name, evaluates the
  call at the resolved header's number, unpacks the three outputs and ranks them.
\<close>

definition GetAllProducers_at :: "Core \<Rightarrow> Header \<Rightarrow> int option \<Rightarrow> ProducersInfo prog" where
  "GetAllProducers_at c header sizeNumber =
     bindP (GetSystemContract c regContract) (\<lambda>looked.
       case looked of
         Err err \<Rightarrow> Return (Err (errors_New ''can't get reg contract address''))
       | Panic p \<Rightarrow> Return (Panic p)
       | Ok sysAddress \<Rightarrow>
           (case RegABI_Pack_getAllProducersInfo c of
              Inl err \<Rightarrow> Return (Err err)
            | Inr inputData \<Rightarrow>
                AskCall \<lparr>To = sysAddress, Data = inputData, Height = Uint64 (Number header)\<rparr>
                  (\<lambda>answer.
                    case answer of
                      Inl err \<Rightarrow> Return (Err err)
                    | Inr data \<Rightarrow>
                        (case RegABI_Unpack_getAllProducersInfo c data of
                           Inl err \<Rightarrow> Return (Err err)
                         | Inr (producersAddr, weight, amount) \<Rightarrow>
                             Return (rankProducers producersAddr weight amount sizeNumber)))))"

definition GetAllProducers :: "Core \<Rightarrow> int option \<Rightarrow> int option \<Rightarrow> ProducersInfo prog" where
  "GetAllProducers c blockNumber sizeNumber =
     resolveHeader blockNumber (\<lambda>header. GetAllProducers_at c header sizeNumber)"

subsection \<open>GetVoteInfo (lines 203-260)\<close>

definition GetVoteInfo_at :: "Core \<Rightarrow> Header \<Rightarrow> address option \<Rightarrow> Voteinfo prog" where
  "GetVoteInfo_at c header addr =
     bindP (GetSystemContract c voteContract) (\<lambda>looked.
       case looked of
         Err err \<Rightarrow> Return (Err (errors_New ''can't get vote contract address''))
       | Panic p \<Rightarrow> Return (Panic p)
       | Ok voteAddress \<Rightarrow>
           (case VoteABI_Pack_getVoteInfo c addr of
              Inl err \<Rightarrow> Return (Err err)
            | Inr inputData \<Rightarrow>
                AskCall \<lparr>To = voteAddress, Data = inputData, Height = Uint64 (Number header)\<rparr>
                  (\<lambda>answer.
                    case answer of
                      Inl err \<Rightarrow> Return (Err err)
                    | Inr data \<Rightarrow>
                        (case VoteABI_Unpack_getVoteInfo c data of
                           Inl err \<Rightarrow> Return (Err err)
                         | Inr (ret0, ret1, ret2, ret3) \<Rightarrow>
                             Return (Ok \<lparr>Proxy = ret0, VoteProducers = ret1,
                                          Staked = ret2, VoteWeight = ret3\<rparr>)))))"

definition GetVoteInfo :: "Core \<Rightarrow> address option \<Rightarrow> int option \<Rightarrow> Voteinfo prog" where
  "GetVoteInfo c addr blockNumber =
     resolveHeader blockNumber (\<lambda>header. GetVoteInfo_at c header addr)"

subsection \<open>GetProposal (lines 262-332)\<close>

definition GetProposal_at :: "Core \<Rightarrow> Header \<Rightarrow> ProposalInfo prog" where
  "GetProposal_at c header =
     (case MainABI_Pack_getProposal c of
        Inl err \<Rightarrow> Return (Err err)
      | Inr inputData \<Rightarrow>
          AskCall \<lparr>To = MainSystemContractAddr c, Data = inputData,
                   Height = Uint64 (Number header)\<rparr>
            (\<lambda>answer.
              case answer of
                Inl err \<Rightarrow> Return (Err err)
              | Inr data \<Rightarrow>
                  (case MainABI_Unpack_getProposal c data of
                     Inl err \<Rightarrow> Return (Err err)
                   | Inr res \<Rightarrow> Return (Ok res))))"

definition GetProposal :: "Core \<Rightarrow> int option \<Rightarrow> ProposalInfo prog" where
  "GetProposal c blockNumber =
     resolveHeader blockNumber (\<lambda>header. GetProposal_at c header)"

subsection \<open>Collaborators that may answer in more than one way\<close>

text \<open>
  To speak about determinism the collaborators are also taken as relations: a world
  says which answers each collaborator may give to a question, and \<open>exec w p r\<close> holds
  when program \<open>p\<close> can end in \<open>r\<close> with answers the world allows. A world is
  functional when every question has at most one answer.
\<close>

record World =
  currentHeaderAnswers :: "Header option \<Rightarrow> bool"
  headerByNumberAnswers :: "uint64 \<Rightarrow> Header option \<Rightarrow> bool"
  callAnswers :: "CallMsg \<Rightarrow> error + bytes \<Rightarrow> bool"

inductive exec :: "World \<Rightarrow> 'a prog \<Rightarrow> 'a result \<Rightarrow> bool" for w :: World where
  exec_Return: "exec w (Return r) r"
| exec_CurrentHeader:
    "currentHeaderAnswers w h \<Longrightarrow> exec w (k h) r \<Longrightarrow> exec w (AskCurrentHeader k) r"
| exec_HeaderByNumber:
    "headerByNumberAnswers w n h \<Longrightarrow> exec w (k h) r \<Longrightarrow> exec w (AskHeaderByNumber n k) r"
| exec_Call:
    "callAnswers w m d \<Longrightarrow> exec w (k d) r \<Longrightarrow> exec w (AskCall m k) r"

definition functional :: "World \<Rightarrow> bool" where
  "functional w \<longleftrightarrow>
     (\<forall>h h'. currentHeaderAnswers w h \<longrightarrow> currentHeaderAnswers w h' \<longrightarrow> h = h')
   \<and> (\<forall>n h h'. headerByNumberAnswers w n h \<longrightarrow> headerByNumberAnswers w n h' \<longrightarrow> h = h')
   \<and> (\<forall>m d d'. callAnswers w m d \<longrightarrow> callAnswers w m d' \<longrightarrow> d = d')"

definition world_of :: "API \<Rightarrow> World" where
  "world_of api =
     \<lparr>currentHeaderAnswers = (\<lambda>h. h = chain_CurrentHeader api),
      headerByNumberAnswers = (\<lambda>n h. h = chain_GetHeaderByNumber api n),
      callAnswers = (\<lambda>m d. d = dpos_Call api m)\<rparr>"

subsection \<open>A concrete chain and calling convention\<close>

text \<open>
  A chain at height 10 that still stores the header of block 5, an evaluation entry
  point that answers every call with the one byte of the height it was asked at, and
  a calling convention with fixed packed bytes and fixed decoded outputs.
\<close>

definition currentExample :: Header where
  "currentExample = \<lparr>Number = 10, ActiveProducers = [10, 11], PendingProducers = [12]\<rparr>"

definition storedExample :: Header where
  "storedExample = \<lparr>Number = 5, ActiveProducers = [11], PendingProducers = [10, 12]\<rparr>"

definition exampleAPI :: API where
  "exampleAPI =
     \<lparr>chain_CurrentHeader = Some currentExample,
      chain_GetHeaderByNumber = (\<lambda>n. if n = 5 then Some storedExample else None),
      dpos_Call = (\<lambda>m. Inr [word_of_nat (unat (Height m))])\<rparr>"

definition proposalExample :: ProposalInfo where
  "proposalExample =
     \<lparr>Id = 1, Status = True, Proposer = 10, ProposeTime = 1000, MaliciousBP = 12,
      Keys = [], Values = [], Flag = 0, ApproveVoteCount = 2, DisapproveCount = 0\<rparr>"

definition exampleCore :: Core where
  "exampleCore =
     \<lparr>MainSystemContractAddr = 100,
      MainABI_Pack_getSystemContract = (\<lambda>name. Inr [1]),
      MainABI_Unpack_getSystemContract = (\<lambda>data. Inr 200),
      RegABI_Pack_getAllProducersInfo = Inr [2],
      RegABI_Unpack_getAllProducersInfo = (\<lambda>data. Inr ([10, 11, 12], [5, 5, 3], 2)),
      VoteABI_Pack_getVoteInfo = (\<lambda>addr. Inr [3]),
      VoteABI_Unpack_getVoteInfo = (\<lambda>data. Inr (20, [10, 11], 7, 9)),
      MainABI_Pack_getProposal = Inr [4],
      MainABI_Unpack_getProposal = (\<lambda>data. Inr proposalExample)\<rparr>"

section \<open>Properties\<close>

subsection \<open>Running the shared opening lines\<close>

lemma run_ensureHeader:
  "run api (ensureHeader header k) =
     (case header of None \<Rightarrow> (Err errUnknownBlock, []) | Some h \<Rightarrow> run api (k h))"
  by (simp add: ensureHeader_def split: option.split)

lemma run_resolveHeader_invalid:
  assumes "h < 0 \<or> (chain_CurrentHeader api = Some cur \<and> Number cur < h)"
  shows "run api (resolveHeader (Some h) k) = (Err errInvalidInput, [EvCurrentHeader])"
  using assms by (auto simp: resolveHeader_def after_def split: option.splits)

lemma run_resolveHeader_unknown:
  assumes "(blockNumber = None \<and> chain_CurrentHeader api = None)
         \<or> (\<exists>h cur. blockNumber = Some h \<and> chain_CurrentHeader api = Some cur \<and> 0 < h
               \<and> h < Number cur \<and> chain_GetHeaderByNumber api (Uint64 h) = None)"
  shows "fst (run api (resolveHeader blockNumber k)) = Err errUnknownBlock"
  using assms by (auto simp: resolveHeader_def ensureHeader_def after_def split: option.splits)

lemma run_resolveHeader_current:
  assumes "chain_CurrentHeader api = Some cur"
  shows "run api (resolveHeader None k) = after EvCurrentHeader (run api (k cur))"
  using assms by (simp add: resolveHeader_def ensureHeader_def)

lemma run_resolveHeader_boundary:
  assumes "chain_CurrentHeader api = Some cur" "0 \<le> Number cur"
  shows "run api (resolveHeader (Some (Number cur)) k) = after EvCurrentHeader (run api (k cur))"
  using assms by (simp add: resolveHeader_def ensureHeader_def)

lemma run_resolveHeader_historical:
  assumes "chain_CurrentHeader api = Some cur" "0 < h" "h < Number cur"
  shows "run api (resolveHeader (Some h) k) =
     after EvCurrentHeader (after (EvGetHeaderByNumber (Uint64 h))
       (case chain_GetHeaderByNumber api (Uint64 h) of
          None \<Rightarrow> (Err errUnknownBlock, [])
        | Some old \<Rightarrow> run api (k old)))"
  using assms by (simp add: resolveHeader_def run_ensureHeader)

lemma run_bindP:
  "run api (bindP p f) =
     (let (r, t) = run api p; (r', t') = run api (f r) in (r', t @ t'))"
  by (induction p) (simp_all add: after_def split_beta Let_def)

lemma Uint64_in_range: "0 \<le> x \<Longrightarrow> x < 2 ^ 64 \<Longrightarrow> uint (Uint64 x) = x"
  by (simp add: Uint64_def uint_word_of_int take_bit_int_eq_self)

lemmas example_defs =
  exampleAPI_def exampleCore_def currentExample_def storedExample_def proposalExample_def

subsection \<open>Heights out of range\<close>

text \<open>
  C3. Every operation that takes a block number answers a requested height \<open>h\<close> with
  \<open>h < 0\<close> or \<open>h\<close> above the current header's number with \<open>errInvalidInput\<close>; the only
  collaborator call made before that is the one for the current header.
\<close>

theorem invalid_height_rejected:
  assumes "h < 0 \<or> (chain_CurrentHeader api = Some cur \<and> Number cur < h)"
  shows "run api (GetActiveProducers (Some h)) = (Err errInvalidInput, [EvCurrentHeader])
       \<and> run api (GetPendingProducer (Some h)) = (Err errInvalidInput, [EvCurrentHeader])
       \<and> run api (GetAllProducers c (Some h) sizeNumber) = (Err errInvalidInput, [EvCurrentHeader])
       \<and> run api (GetVoteInfo c addr (Some h)) = (Err errInvalidInput, [EvCurrentHeader])
       \<and> run api (GetProposal c (Some h)) = (Err errInvalidInput, [EvCurrentHeader])"
  unfolding GetActiveProducers_def GetPendingProducer_def GetAllProducers_def GetVoteInfo_def
    GetProposal_def
  by (simp add: run_resolveHeader_invalid [OF assms])

theorem invalid_height_rejected_witness:
  "((11::int) < 0 \<or> (chain_CurrentHeader exampleAPI = Some currentExample
      \<and> Number currentExample < 11))
   \<and> run exampleAPI (GetActiveProducers (Some 11)) = (Err errInvalidInput, [EvCurrentHeader])
   \<and> run exampleAPI (GetPendingProducer (Some 11)) = (Err errInvalidInput, [EvCurrentHeader])
   \<and> run exampleAPI (GetAllProducers exampleCore (Some 11) (Some 0))
       = (Err errInvalidInput, [EvCurrentHeader])
   \<and> run exampleAPI (GetVoteInfo exampleCore (Some 10) (Some 11))
       = (Err errInvalidInput, [EvCurrentHeader])
   \<and> run exampleAPI (GetProposal exampleCore (Some 11)) = (Err errInvalidInput, [EvCurrentHeader])"
  using invalid_height_rejected [of 11 exampleAPI currentExample exampleCore "Some 0" "Some 10"]
  by (simp add: exampleAPI_def currentExample_def)

subsection \<open>A header that cannot be found\<close>

text \<open>
  C7. When the requested height is absent and the chain reader has no current header,
  or the height lies strictly between 0 and the current height and the chain reader
  has no header under that number, each of the five operations fails with
  \<open>errUnknownBlock\<close>. (A height equal to 0 or to the current height resolves to the
  current header, which was already read to validate the range.)
\<close>

theorem missing_header_unknown_block:
  assumes "(blockNumber = None \<and> chain_CurrentHeader api = None)
         \<or> (\<exists>h cur. blockNumber = Some h \<and> chain_CurrentHeader api = Some cur \<and> 0 < h
               \<and> h < Number cur \<and> chain_GetHeaderByNumber api (Uint64 h) = None)"
  shows "fst (run api (GetActiveProducers blockNumber)) = Err errUnknownBlock
       \<and> fst (run api (GetPendingProducer blockNumber)) = Err errUnknownBlock
       \<and> fst (run api (GetAllProducers c blockNumber sizeNumber)) = Err errUnknownBlock
       \<and> fst (run api (GetVoteInfo c addr blockNumber)) = Err errUnknownBlock
       \<and> fst (run api (GetProposal c blockNumber)) = Err errUnknownBlock"
  unfolding GetActiveProducers_def GetPendingProducer_def GetAllProducers_def GetVoteInfo_def
    GetProposal_def
  by (simp add: run_resolveHeader_unknown [OF assms])

theorem missing_header_unknown_block_witness:
  "((Some (7::int) = None \<and> chain_CurrentHeader exampleAPI = None)
     \<or> (\<exists>h cur. Some (7::int) = Some h \<and> chain_CurrentHeader exampleAPI = Some cur \<and> 0 < h
           \<and> h < Number cur \<and> chain_GetHeaderByNumber exampleAPI (Uint64 h) = None))
   \<and> fst (run exampleAPI (GetActiveProducers (Some 7))) = Err errUnknownBlock
   \<and> fst (run exampleAPI (GetPendingProducer (Some 7))) = Err errUnknownBlock
   \<and> fst (run exampleAPI (GetAllProducers exampleCore (Some 7) (Some 0))) = Err errUnknownBlock
   \<and> fst (run exampleAPI (GetVoteInfo exampleCore (Some 10) (Some 7))) = Err errUnknownBlock
   \<and> fst (run exampleAPI (GetProposal exampleCore (Some 7))) = Err errUnknownBlock"
proof -
  have hyp: "(Some (7::int) = None \<and> chain_CurrentHeader exampleAPI = None)
     \<or> (\<exists>h cur. Some (7::int) = Some h \<and> chain_CurrentHeader exampleAPI = Some cur \<and> 0 < h
           \<and> h < Number cur \<and> chain_GetHeaderByNumber exampleAPI (Uint64 h) = None)"
    by (simp add: exampleAPI_def currentExample_def Uint64_def)
  from missing_header_unknown_block [OF hyp, of exampleCore "Some 0" "Some 10"] hyp
  show ?thesis by blast
qed

subsection \<open>Producers of a stored block\<close>

text \<open>
  C5. For a height \<open>h\<close> strictly between 0 and the current height whose header the chain
  reader finds, \<open>GetActiveProducers\<close> returns the active producers of that header and
  \<open>GetPendingProducer\<close> its pending producers. The only collaborator calls are the two
  header lookups: no contract call is made. The chain reader is indexed by
  \<^verbatim>\<open>blockNumber.Uint64()\<close>, which is \<open>h\<close> itself for every \<open>h\<close> below \<open>2^64\<close>.
\<close>

theorem historical_producers_from_header:
  assumes "chain_CurrentHeader api = Some cur" "0 < h" "h < Number cur"
    and "chain_GetHeaderByNumber api (Uint64 h) = Some old"
  shows "run api (GetActiveProducers (Some h))
           = (Ok (ActiveProducers old), [EvCurrentHeader, EvGetHeaderByNumber (Uint64 h)])
       \<and> run api (GetPendingProducer (Some h))
           = (Ok (PendingProducers old), [EvCurrentHeader, EvGetHeaderByNumber (Uint64 h)])
       \<and> (h < 2 ^ 64 \<longrightarrow> uint (Uint64 h) = h)"
  using assms
  by (simp add: GetActiveProducers_def GetPendingProducer_def run_resolveHeader_historical
      after_def Uint64_in_range)

theorem historical_producers_from_header_witness:
  "chain_CurrentHeader exampleAPI = Some currentExample \<and> (0::int) < 5 \<and> 5 < Number currentExample
   \<and> chain_GetHeaderByNumber exampleAPI (Uint64 5) = Some storedExample
   \<and> run exampleAPI (GetActiveProducers (Some 5))
        = (Ok [11], [EvCurrentHeader, EvGetHeaderByNumber 5])
   \<and> run exampleAPI (GetPendingProducer (Some 5))
        = (Ok [10, 12], [EvCurrentHeader, EvGetHeaderByNumber 5])
   \<and> uint (Uint64 5) = 5"
proof -
  have a: "chain_CurrentHeader exampleAPI = Some currentExample"
    and b: "(0::int) < 5" and c: "5 < Number currentExample"
    and d: "chain_GetHeaderByNumber exampleAPI (Uint64 5) = Some storedExample"
    by (simp_all add: example_defs Uint64_def)
  from historical_producers_from_header [OF a b c d] a b c d
  show ?thesis by (simp add: storedExample_def Uint64_def)
qed

subsection \<open>Which header an operation works on\<close>

text \<open>
  C4. With a current header \<open>cur\<close> present: when the height is absent, each operation
  reads the current header once and works on it; when the height equals the current
  height it does the same, without a lookup by number and without failing at this
  stage; when the height lies strictly between 0 and the current height, the header
  is fetched with \<open>GetHeaderByNumber\<close> and the operation works on the fetched header
  (or fails with \<open>errUnknownBlock\<close> when there is none). For the three operations that
  go on to call contracts, "works on" is the rest of the operation, started from the
  resolved header.
\<close>

theorem header_resolution:
  assumes "chain_CurrentHeader api = Some cur"
  shows "run api (GetActiveProducers None) = (Ok (ActiveProducers cur), [EvCurrentHeader])
       \<and> run api (GetPendingProducer None) = (Ok (PendingProducers cur), [EvCurrentHeader])
       \<and> run api (GetAllProducers c None sizeNumber)
           = after EvCurrentHeader (run api (GetAllProducers_at c cur sizeNumber))
       \<and> run api (GetVoteInfo c addr None)
           = after EvCurrentHeader (run api (GetVoteInfo_at c cur addr))
       \<and> run api (GetProposal c None) = after EvCurrentHeader (run api (GetProposal_at c cur))
       \<and> (0 \<le> Number cur \<longrightarrow>
            run api (GetActiveProducers (Some (Number cur)))
              = (Ok (ActiveProducers cur), [EvCurrentHeader])
          \<and> run api (GetPendingProducer (Some (Number cur)))
              = (Ok (PendingProducers cur), [EvCurrentHeader])
          \<and> run api (GetAllProducers c (Some (Number cur)) sizeNumber)
              = after EvCurrentHeader (run api (GetAllProducers_at c cur sizeNumber))
          \<and> run api (GetVoteInfo c addr (Some (Number cur)))
              = after EvCurrentHeader (run api (GetVoteInfo_at c cur addr))
          \<and> run api (GetProposal c (Some (Number cur)))
              = after EvCurrentHeader (run api (GetProposal_at c cur)))
       \<and> (0 < h \<and> h < Number cur \<longrightarrow>
            run api (GetActiveProducers (Some h))
              = after EvCurrentHeader (after (EvGetHeaderByNumber (Uint64 h))
                  (case chain_GetHeaderByNumber api (Uint64 h) of
                     None \<Rightarrow> (Err errUnknownBlock, [])
                   | Some old \<Rightarrow> (Ok (ActiveProducers old), [])))
          \<and> run api (GetPendingProducer (Some h))
              = after EvCurrentHeader (after (EvGetHeaderByNumber (Uint64 h))
                  (case chain_GetHeaderByNumber api (Uint64 h) of
                     None \<Rightarrow> (Err errUnknownBlock, [])
                   | Some old \<Rightarrow> (Ok (PendingProducers old), [])))
          \<and> run api (GetAllProducers c (Some h) sizeNumber)
              = after EvCurrentHeader (after (EvGetHeaderByNumber (Uint64 h))
                  (case chain_GetHeaderByNumber api (Uint64 h) of
                     None \<Rightarrow> (Err errUnknownBlock, [])
                   | Some old \<Rightarrow> run api (GetAllProducers_at c old sizeNumber)))
          \<and> run api (GetVoteInfo c addr (Some h))
              = after EvCurrentHeader (after (EvGetHeaderByNumber (Uint64 h))
                  (case chain_GetHeaderByNumber api (Uint64 h) of
                     None \<Rightarrow> (Err errUnknownBlock, [])
                   | Some old \<Rightarrow> run api (GetVoteInfo_at c old addr)))
          \<and> run api (GetProposal c (Some h))
              = after EvCurrentHeader (after (EvGetHeaderByNumber (Uint64 h))
                  (case chain_GetHeaderByNumber api (Uint64 h) of
                     None \<Rightarrow> (Err errUnknownBlock, [])
                   | Some old \<Rightarrow> run api (GetProposal_at c old))))"
proof (intro conjI impI)
  show "run api (GetActiveProducers None) = (Ok (ActiveProducers cur), [EvCurrentHeader])"
    and "run api (GetPendingProducer None) = (Ok (PendingProducers cur), [EvCurrentHeader])"
    by (simp_all add: GetActiveProducers_def GetPendingProducer_def
        run_resolveHeader_current [OF assms] after_def)
  show "run api (GetAllProducers c None sizeNumber)
          = after EvCurrentHeader (run api (GetAllProducers_at c cur sizeNumber))"
    and "run api (GetVoteInfo c addr None)
          = after EvCurrentHeader (run api (GetVoteInfo_at c cur addr))"
    and "run api (GetProposal c None) = after EvCurrentHeader (run api (GetProposal_at c cur))"
    by (simp_all add: GetAllProducers_def GetVoteInfo_def GetProposal_def
        run_resolveHeader_current [OF assms])
next
  assume nn: "0 \<le> Number cur"
  show "run api (GetActiveProducers (Some (Number cur)))
          = (Ok (ActiveProducers cur), [EvCurrentHeader])"
    and "run api (GetPendingProducer (Some (Number cur)))
          = (Ok (PendingProducers cur), [EvCurrentHeader])"
    by (simp_all add: GetActiveProducers_def GetPendingProducer_def
        run_resolveHeader_boundary [OF assms nn] after_def)
  show "run api (GetAllProducers c (Some (Number cur)) sizeNumber)
          = after EvCurrentHeader (run api (GetAllProducers_at c cur sizeNumber))"
    and "run api (GetVoteInfo c addr (Some (Number cur)))
          = after EvCurrentHeader (run api (GetVoteInfo_at c cur addr))"
    and "run api (GetProposal c (Some (Number cur)))
          = after EvCurrentHeader (run api (GetProposal_at c cur))"
    by (simp_all add: GetAllProducers_def GetVoteInfo_def GetProposal_def
        run_resolveHeader_boundary [OF assms nn])
next
  assume "0 < h \<and> h < Number cur"
  then have h: "0 < h" "h < Number cur" by simp_all
  note hist = run_resolveHeader_historical [OF assms h]
  show "run api (GetActiveProducers (Some h))
          = after EvCurrentHeader (after (EvGetHeaderByNumber (Uint64 h))
              (case chain_GetHeaderByNumber api (Uint64 h) of
                 None \<Rightarrow> (Err errUnknownBlock, [])
               | Some old \<Rightarrow> (Ok (ActiveProducers old), [])))"
    and "run api (GetPendingProducer (Some h))
          = after EvCurrentHeader (after (EvGetHeaderByNumber (Uint64 h))
              (case chain_GetHeaderByNumber api (Uint64 h) of
                 None \<Rightarrow> (Err errUnknownBlock, [])
               | Some old \<Rightarrow> (Ok (PendingProducers old), [])))"
    and "run api (GetAllProducers c (Some h) sizeNumber)
          = after EvCurrentHeader (after (EvGetHeaderByNumber (Uint64 h))
              (case chain_GetHeaderByNumber api (Uint64 h) of
                 None \<Rightarrow> (Err errUnknownBlock, [])
               | Some old \<Rightarrow> run api (GetAllProducers_at c old sizeNumber)))"
    and "run api (GetVoteInfo c addr (Some h))
          = after EvCurrentHeader (after (EvGetHeaderByNumber (Uint64 h))
              (case chain_GetHeaderByNumber api (Uint64 h) of
                 None \<Rightarrow> (Err errUnknownBlock, [])
               | Some old \<Rightarrow> run api (GetVoteInfo_at c old addr)))"
    and "run api (GetProposal c (Some h))
          = after EvCurrentHeader (after (EvGetHeaderByNumber (Uint64 h))
              (case chain_GetHeaderByNumber api (Uint64 h) of
                 None \<Rightarrow> (Err errUnknownBlock, [])
               | Some old \<Rightarrow> run api (GetProposal_at c old)))"
    by (simp_all add: GetActiveProducers_def GetPendingProducer_def GetAllProducers_def
        GetVoteInfo_def GetProposal_def hist split: option.split)
qed

theorem header_resolution_witness:
  "chain_CurrentHeader exampleAPI = Some currentExample
   \<and> 0 \<le> Number currentExample \<and> (0::int) < 5 \<and> 5 < Number currentExample
   \<and> run exampleAPI (GetActiveProducers None) = (Ok [10, 11], [EvCurrentHeader])
   \<and> run exampleAPI (GetActiveProducers (Some 10)) = (Ok [10, 11], [EvCurrentHeader])
   \<and> run exampleAPI (GetActiveProducers (Some 5))
        = (Ok [11], [EvCurrentHeader, EvGetHeaderByNumber 5])
   \<and> run exampleAPI (GetProposal exampleCore (Some 10))
        = after EvCurrentHeader (run exampleAPI (GetProposal_at exampleCore currentExample))"
proof -
  have a: "chain_CurrentHeader exampleAPI = Some currentExample"
    by (simp add: exampleAPI_def)
  have b: "0 \<le> Number currentExample" "(0::int) < 5" "5 < Number currentExample"
    by (simp_all add: currentExample_def)
  have d: "chain_GetHeaderByNumber exampleAPI (Uint64 5) = Some storedExample"
    by (simp add: exampleAPI_def Uint64_def)
  from header_resolution [OF a, of exampleCore "Some 0" "Some 10" 5] a b d
  show ?thesis
    by (simp add: currentExample_def storedExample_def after_def Uint64_def)
qed

subsection \<open>The empty contract name\<close>

text \<open>
  C6, as amended. \<open>GetSystemContract\<close> called with the empty string fails before it asks
  any collaborator: the run makes no chain-reader call and no evaluation call. The
  error it returns is the fresh \<^verbatim>\<open>errors.New("null string")\<close> of line 336, not the
  package variable \<open>errInvalidInput\<close> that the height checks return.
\<close>

theorem empty_contract_name_refused:
  "run api (GetSystemContract c '''') = (Err (errors_New ''null string''), [])"
  by (simp add: GetSystemContract_def)

text \<open>
  C6 as stated asks for \<open>errInvalidInput\<close>; on the concrete chain the error of the empty
  name is a different value.
\<close>

theorem empty_contract_name_counterexample:
  "fst (run exampleAPI (GetSystemContract exampleCore '''')) \<noteq> Err errInvalidInput"
  by (simp add: GetSystemContract_def)

subsection \<open>Where the contract address is looked up\<close>

lemma regContract_nonempty: "regContract \<noteq> []" by (simp add: regContract_def)
lemma voteContract_nonempty: "voteContract \<noteq> []" by (simp add: voteContract_def)

lemma run_GetSystemContract_packed:
  assumes "chain_CurrentHeader api = Some cur" "contractName \<noteq> []"
    and "MainABI_Pack_getSystemContract c contractName = Inr inputData"
  shows "run api (GetSystemContract c contractName) =
     (case dpos_Call api \<lparr>To = MainSystemContractAddr c, Data = inputData,
                           Height = Uint64 (Number cur)\<rparr> of
        Inl err \<Rightarrow> Err err
      | Inr data \<Rightarrow>
          (case MainABI_Unpack_getSystemContract c data of
             Inl err \<Rightarrow> Err err | Inr res \<Rightarrow> Ok res),
      [EvCurrentHeader,
       EvCall \<lparr>To = MainSystemContractAddr c, Data = inputData, Height = Uint64 (Number cur)\<rparr>])"
  using assms by (simp add: GetSystemContract_def after_def split: sum.split)

lemma run_GetAllProducers_at_lookup:
  assumes "chain_CurrentHeader api = Some cur"
    and "MainABI_Pack_getSystemContract c regContract = Inr regInput"
  shows "take 2 (snd (run api (GetAllProducers_at c old sizeNumber))) =
      [EvCurrentHeader,
       EvCall \<lparr>To = MainSystemContractAddr c, Data = regInput, Height = Uint64 (Number cur)\<rparr>]"
  by (simp add: GetAllProducers_at_def run_bindP
      run_GetSystemContract_packed [OF assms(1) regContract_nonempty assms(2)] split_beta)

lemma run_GetVoteInfo_at_lookup:
  assumes "chain_CurrentHeader api = Some cur"
    and "MainABI_Pack_getSystemContract c voteContract = Inr voteInput"
  shows "take 2 (snd (run api (GetVoteInfo_at c old addr))) =
      [EvCurrentHeader,
       EvCall \<lparr>To = MainSystemContractAddr c, Data = voteInput, Height = Uint64 (Number cur)\<rparr>]"
  by (simp add: GetVoteInfo_at_def run_bindP
      run_GetSystemContract_packed [OF assms(1) voteContract_nonempty assms(2)] split_beta)

lemma run_GetAllProducers_at_query:
  assumes "chain_CurrentHeader api = Some cur"
    and "MainABI_Pack_getSystemContract c regContract = Inr regInput"
    and "dpos_Call api \<lparr>To = MainSystemContractAddr c, Data = regInput,
                         Height = Uint64 (Number cur)\<rparr> = Inr answer"
    and "MainABI_Unpack_getSystemContract c answer = Inr sysAddress"
    and "RegABI_Pack_getAllProducersInfo c = Inr inputData"
  shows "snd (run api (GetAllProducers_at c old sizeNumber)) =
      [EvCurrentHeader,
       EvCall \<lparr>To = MainSystemContractAddr c, Data = regInput, Height = Uint64 (Number cur)\<rparr>,
       EvCall \<lparr>To = sysAddress, Data = inputData, Height = Uint64 (Number old)\<rparr>]"
  using assms(3-5)
  by (simp add: GetAllProducers_at_def run_bindP
      run_GetSystemContract_packed [OF assms(1) regContract_nonempty assms(2)] split_beta after_def
      split: sum.split prod.split)

lemma run_GetVoteInfo_at_query:
  assumes "chain_CurrentHeader api = Some cur"
    and "MainABI_Pack_getSystemContract c voteContract = Inr voteInput"
    and "dpos_Call api \<lparr>To = MainSystemContractAddr c, Data = voteInput,
                         Height = Uint64 (Number cur)\<rparr> = Inr answer"
    and "MainABI_Unpack_getSystemContract c answer = Inr voteAddress"
    and "VoteABI_Pack_getVoteInfo c addr = Inr inputData"
  shows "snd (run api (GetVoteInfo_at c old addr)) =
      [EvCurrentHeader,
       EvCall \<lparr>To = MainSystemContractAddr c, Data = voteInput, Height = Uint64 (Number cur)\<rparr>,
       EvCall \<lparr>To = voteAddress, Data = inputData, Height = Uint64 (Number old)\<rparr>]"
  using assms(3-5)
  by (simp add: GetVoteInfo_at_def run_bindP
      run_GetSystemContract_packed [OF assms(1) voteContract_nonempty assms(2)] split_beta after_def
      split: sum.split prod.split)

text \<open>
  C9. When \<open>GetAllProducers\<close> or \<open>GetVoteInfo\<close> is asked about a stored block \<open>h\<close> below
  the current height, the registry lookup of \<open>GetSystemContract\<close> is still evaluated at
  the current header's number: the fourth collaborator call is the registry call with
  \<open>Height = Uint64 (Number cur)\<close>. When that lookup succeeds, the query itself is sent
  to the address it returned, at the number of the stored header.
\<close>

theorem contract_lookup_at_current_height:
  assumes "chain_CurrentHeader api = Some cur" "0 < h" "h < Number cur"
    and "chain_GetHeaderByNumber api (Uint64 h) = Some old"
  shows "(MainABI_Pack_getSystemContract c regContract = Inr regInput \<longrightarrow>
            take 4 (snd (run api (GetAllProducers c (Some h) sizeNumber))) =
              [EvCurrentHeader, EvGetHeaderByNumber (Uint64 h), EvCurrentHeader,
               EvCall \<lparr>To = MainSystemContractAddr c, Data = regInput,
                        Height = Uint64 (Number cur)\<rparr>]
          \<and> (\<forall>answer sysAddress inputData.
                dpos_Call api \<lparr>To = MainSystemContractAddr c, Data = regInput,
                                Height = Uint64 (Number cur)\<rparr> = Inr answer
                \<and> MainABI_Unpack_getSystemContract c answer = Inr sysAddress
                \<and> RegABI_Pack_getAllProducersInfo c = Inr inputData \<longrightarrow>
                snd (run api (GetAllProducers c (Some h) sizeNumber)) =
                  [EvCurrentHeader, EvGetHeaderByNumber (Uint64 h), EvCurrentHeader,
                   EvCall \<lparr>To = MainSystemContractAddr c, Data = regInput,
                            Height = Uint64 (Number cur)\<rparr>,
                   EvCall \<lparr>To = sysAddress, Data = inputData,
                            Height = Uint64 (Number old)\<rparr>]))
       \<and> (MainABI_Pack_getSystemContract c voteContract = Inr voteInput \<longrightarrow>
            take 4 (snd (run api (GetVoteInfo c addr (Some h)))) =
              [EvCurrentHeader, EvGetHeaderByNumber (Uint64 h), EvCurrentHeader,
               EvCall \<lparr>To = MainSystemContractAddr c, Data = voteInput,
                        Height = Uint64 (Number cur)\<rparr>]
          \<and> (\<forall>answer voteAddress inputData.
                dpos_Call api \<lparr>To = MainSystemContractAddr c, Data = voteInput,
                                Height = Uint64 (Number cur)\<rparr> = Inr answer
                \<and> MainABI_Unpack_getSystemContract c answer = Inr voteAddress
                \<and> VoteABI_Pack_getVoteInfo c addr = Inr inputData \<longrightarrow>
                snd (run api (GetVoteInfo c addr (Some h))) =
                  [EvCurrentHeader, EvGetHeaderByNumber (Uint64 h), EvCurrentHeader,
                   EvCall \<lparr>To = MainSystemContractAddr c, Data = voteInput,
                            Height = Uint64 (Number cur)\<rparr>,
                   EvCall \<lparr>To = voteAddress, Data = inputData,
                            Height = Uint64 (Number old)\<rparr>]))"
proof -
  have all: "snd (run api (GetAllProducers c (Some h) sizeNumber)) =
      EvCurrentHeader # EvGetHeaderByNumber (Uint64 h)
        # snd (run api (GetAllProducers_at c old sizeNumber))"
    by (simp add: GetAllProducers_def run_resolveHeader_historical [OF assms(1-3)] assms(4)
        after_def)
  have vote: "snd (run api (GetVoteInfo c addr (Some h))) =
      EvCurrentHeader # EvGetHeaderByNumber (Uint64 h)
        # snd (run api (GetVoteInfo_at c old addr))"
    by (simp add: GetVoteInfo_def run_resolveHeader_historical [OF assms(1-3)] assms(4)
        after_def)
  show ?thesis
  proof (intro conjI impI allI)
    assume p: "MainABI_Pack_getSystemContract c regContract = Inr regInput"
    from run_GetAllProducers_at_lookup [OF assms(1) p, of old sizeNumber]
    show "take 4 (snd (run api (GetAllProducers c (Some h) sizeNumber))) =
        [EvCurrentHeader, EvGetHeaderByNumber (Uint64 h), EvCurrentHeader,
         EvCall \<lparr>To = MainSystemContractAddr c, Data = regInput,
                  Height = Uint64 (Number cur)\<rparr>]"
      by (simp add: all numeral_eq_Suc)
  next
    fix answer sysAddress inputData
    assume p: "MainABI_Pack_getSystemContract c regContract = Inr regInput"
      and q: "dpos_Call api \<lparr>To = MainSystemContractAddr c, Data = regInput,
                               Height = Uint64 (Number cur)\<rparr> = Inr answer
              \<and> MainABI_Unpack_getSystemContract c answer = Inr sysAddress
              \<and> RegABI_Pack_getAllProducersInfo c = Inr inputData"
    from q have q1: "dpos_Call api \<lparr>To = MainSystemContractAddr c, Data = regInput,
                               Height = Uint64 (Number cur)\<rparr> = Inr answer"
      and q2: "MainABI_Unpack_getSystemContract c answer = Inr sysAddress"
      and q3: "RegABI_Pack_getAllProducersInfo c = Inr inputData"
      by simp_all
    from run_GetAllProducers_at_query [OF assms(1) p q1 q2 q3]
    show "snd (run api (GetAllProducers c (Some h) sizeNumber)) =
        [EvCurrentHeader, EvGetHeaderByNumber (Uint64 h), EvCurrentHeader,
         EvCall \<lparr>To = MainSystemContractAddr c, Data = regInput,
                  Height = Uint64 (Number cur)\<rparr>,
         EvCall \<lparr>To = sysAddress, Data = inputData, Height = Uint64 (Number old)\<rparr>]"
      by (simp add: all)
  next
    assume p: "MainABI_Pack_getSystemContract c voteContract = Inr voteInput"
    from run_GetVoteInfo_at_lookup [OF assms(1) p, of old addr]
    show "take 4 (snd (run api (GetVoteInfo c addr (Some h)))) =
        [EvCurrentHeader, EvGetHeaderByNumber (Uint64 h), EvCurrentHeader,
         EvCall \<lparr>To = MainSystemContractAddr c, Data = voteInput,
                  Height = Uint64 (Number cur)\<rparr>]"
      by (simp add: vote numeral_eq_Suc)
  next
    fix answer voteAddress inputData
    assume p: "MainABI_Pack_getSystemContract c voteContract = Inr voteInput"
      and q: "dpos_Call api \<lparr>To = MainSystemContractAddr c, Data = voteInput,
                               Height = Uint64 (Number cur)\<rparr> = Inr answer
              \<and> MainABI_Unpack_getSystemContract c answer = Inr voteAddress
              \<and> VoteABI_Pack_getVoteInfo c addr = Inr inputData"
    from q have q1: "dpos_Call api \<lparr>To = MainSystemContractAddr c, Data = voteInput,
                               Height = Uint64 (Number cur)\<rparr> = Inr answer"
      and q2: "MainABI_Unpack_getSystemContract c answer = Inr voteAddress"
      and q3: "VoteABI_Pack_getVoteInfo c addr = Inr inputData"
      by simp_all
    from run_GetVoteInfo_at_query [OF assms(1) p q1 q2 q3]
    show "snd (run api (GetVoteInfo c addr (Some h))) =
        [EvCurrentHeader, EvGetHeaderByNumber (Uint64 h), EvCurrentHeader,
         EvCall \<lparr>To = MainSystemContractAddr c, Data = voteInput,
                  Height = Uint64 (Number cur)\<rparr>,
         EvCall \<lparr>To = voteAddress, Data = inputData, Height = Uint64 (Number old)\<rparr>]"
      by (simp add: vote)
  qed
qed

theorem contract_lookup_at_current_height_witness:
  "chain_CurrentHeader exampleAPI = Some currentExample \<and> (0::int) < 5 \<and> 5 < Number currentExample
   \<and> chain_GetHeaderByNumber exampleAPI (Uint64 5) = Some storedExample
   \<and> MainABI_Pack_getSystemContract exampleCore regContract = Inr [1]
   \<and> MainABI_Pack_getSystemContract exampleCore voteContract = Inr [1]
   \<and> take 4 (snd (run exampleAPI (GetAllProducers exampleCore (Some 5) (Some 0)))) =
        [EvCurrentHeader, EvGetHeaderByNumber 5, EvCurrentHeader,
         EvCall \<lparr>To = 100, Data = [1], Height = 10\<rparr>]
   \<and> take 4 (snd (run exampleAPI (GetVoteInfo exampleCore (Some 10) (Some 5)))) =
        [EvCurrentHeader, EvGetHeaderByNumber 5, EvCurrentHeader,
         EvCall \<lparr>To = 100, Data = [1], Height = 10\<rparr>]"
proof -
  have a: "chain_CurrentHeader exampleAPI = Some currentExample"
    and b: "(0::int) < 5" and b': "5 < Number currentExample"
    and d: "chain_GetHeaderByNumber exampleAPI (Uint64 5) = Some storedExample"
    and e: "MainABI_Pack_getSystemContract exampleCore regContract = Inr [1]"
    and f: "MainABI_Pack_getSystemContract exampleCore voteContract = Inr [1]"
    by (simp_all add: example_defs Uint64_def)
  from contract_lookup_at_current_height [OF a b b' d, where c = exampleCore and regInput = "[1]"
      and voteInput = "[1]" and sizeNumber = "Some 0" and addr = "Some 10"]
    a b b' d e f
  show ?thesis
    by (simp add: exampleCore_def currentExample_def Uint64_def)
qed

lemma run_resolveHeader_Ok:
  assumes "fst (run api (resolveHeader blockNumber k)) = Ok x"
  shows "\<exists>header. fst (run api (k header)) = Ok x"
  using assms
  by (auto simp: resolveHeader_def ensureHeader_def after_def split: option.splits if_splits)

lemma rankProducers_nil: "rankProducers producersAddr weight amount None = Panic nil_dereference"
  by (simp add: rankProducers_def)

lemma GetAllProducers_at_nil_not_Ok:
  "fst (run api (GetAllProducers_at c header None)) \<noteq> Ok info"
  by (simp add: GetAllProducers_at_def run_bindP GetSystemContract_def after_def split_beta
      rankProducers_nil regContract_nonempty
      split: sum.split prod.split option.split result.split)

subsection \<open>The ranking loop and the sort table\<close>

text \<open>
  The collecting loop succeeds exactly when every index it reads exists; it then pairs
  the first \<open>getNumber\<close> ranked entries with their addresses.
\<close>

lemma collectTop_eq:
  "collectTop producersAddr sortedProducers getNumber i topProducers =
     (if \<forall>j. i \<le> j \<and> j < getNumber \<longrightarrow>
            j < length sortedProducers \<and> serial (sortedProducers ! j) < length producersAddr
      then Ok (topProducers @
             map (\<lambda>e. \<lparr>Addr = producersAddr ! serial e, Weight = num e\<rparr>)
               (drop i (take getNumber sortedProducers)))
      else Panic index_out_of_range)"
proof (induction producersAddr sortedProducers getNumber i topProducers rule: collectTop.induct)
  case (1 producersAddr sortedProducers getNumber i topProducers)
  show ?case
  proof (cases "i < getNumber")
    case False
    then show ?thesis by (subst collectTop.simps) simp
  next
    case lt: True
    show ?thesis
    proof (cases "i < length sortedProducers \<and> serial (sortedProducers ! i) < length producersAddr")
      case False
      with lt have "\<not> (\<forall>j. i \<le> j \<and> j < getNumber \<longrightarrow>
            j < length sortedProducers \<and> serial (sortedProducers ! j) < length producersAddr)"
        by (metis le_refl)
      with lt False show ?thesis by (subst collectTop.simps) auto
    next
      case ok: True
      have split: "(\<forall>j. i \<le> j \<and> j < getNumber \<longrightarrow>
            j < length sortedProducers \<and> serial (sortedProducers ! j) < length producersAddr)
          \<longleftrightarrow> (\<forall>j. Suc i \<le> j \<and> j < getNumber \<longrightarrow>
            j < length sortedProducers \<and> serial (sortedProducers ! j) < length producersAddr)"
        using ok by (metis Suc_leI le_neq_implies_less Suc_leD)
      have dr: "drop i (take getNumber sortedProducers) =
          sortedProducers ! i # drop (Suc i) (take getNumber sortedProducers)"
        using ok lt by (simp add: Cons_nth_drop_Suc [symmetric])
      from lt ok have "collectTop producersAddr sortedProducers getNumber i topProducers =
          collectTop producersAddr sortedProducers getNumber (Suc i)
            (topProducers @ [\<lparr>Addr = producersAddr ! serial (sortedProducers ! i),
                              Weight = num (sortedProducers ! i)\<rparr>])"
        by (subst collectTop.simps) simp
      also note "1.IH" [OF lt] 
      finally show ?thesis using ok by (simp add: split dr)
    qed
  qed
qed


lemma length_makeSortTable: "length (makeSortTable weight) = length weight"
  by (simp add: makeSortTable_def)

lemma map_serial_makeSortTable: "map serial (makeSortTable weight) = [0..<length weight]"
proof -
  have "map serial (makeSortTable weight) = map fst (enumerate 0 weight)"
    unfolding makeSortTable_def map_map by (rule map_cong) auto
  then show ?thesis
    by (simp only: map_fst_enumerate add_0)
qed

lemma makeSortTable_entry:
  assumes "e \<in> set (makeSortTable weight)"
  shows "serial e < length weight \<and> num e = weight ! serial e"
proof -
  from assms obtain i v where iv: "(i, v) \<in> set (enumerate 0 weight)"
    and e: "e = \<lparr>serial = i, num = v\<rparr>"
    unfolding makeSortTable_def by auto
  from iv have "i < length weight \<and> v = weight ! i"
    by (simp add: in_set_enumerate_eq)
  with e show ?thesis by simp
qed

lemma ranked_entry:
  assumes "e \<in> set (sort_key rankKey (makeSortTable weight))"
  shows "serial e < length weight \<and> num e = weight ! serial e"
  using assms by (simp add: makeSortTable_entry)

lemma distinct_serial_ranked:
  "distinct (map serial (sort_key rankKey (makeSortTable weight)))"
proof -
  have "mset (map serial (sort_key rankKey (makeSortTable weight)))
      = mset (map serial (makeSortTable weight))"
    by simp
  then have "distinct (map serial (sort_key rankKey (makeSortTable weight)))
      \<longleftrightarrow> distinct (map serial (makeSortTable weight))"
    by (rule mset_eq_imp_distinct_iff)
  then show ?thesis
    by (simp add: map_serial_makeSortTable)
qed

lemma strictly_ranked:
  "sorted_wrt (\<lambda>a b. rankKey a < rankKey b) (sort_key rankKey (makeSortTable weight))"
proof -
  let ?r = "sort_key rankKey (makeSortTable weight)"
  have "map serial ?r = map snd (map rankKey ?r)"
    by (simp add: rankKey_def)
  with distinct_serial_ranked [of weight] have "distinct (map rankKey ?r)"
    by (metis distinct_map)
  moreover have "sorted (map rankKey ?r)"
    by (rule sorted_sort_key)
  ultimately have "sorted_wrt (<) (map rankKey ?r)"
    by (simp add: strict_sorted_iff)
  then show ?thesis by (simp add: sorted_wrt_map)
qed

lemma chooseNumber_le: "chooseNumber len amount s = Ok k \<Longrightarrow> k \<le> len"
  by (auto simp: chooseNumber_def split: if_splits)

lemma GetTop_length:
  "k \<le> length weight \<Longrightarrow> length (GetTop (makeSortTable weight) k) = k"
  by (simp add: GetTop_def length_makeSortTable)

lemma rankProducers_enough_addresses:
  assumes "length weight \<le> length producersAddr"
  shows "rankProducers producersAddr weight amount (Some sz) =
     (case chooseNumber (length weight) amount (Int64 sz) of
        Ok getNumber \<Rightarrow>
          Ok \<lparr>Producers = map (\<lambda>e. \<lparr>Addr = producersAddr ! serial e, Weight = num e\<rparr>)
                            (GetTop (makeSortTable weight) getNumber),
              Size = amount\<rparr>
      | Err err \<Rightarrow> Err err
      | Panic p \<Rightarrow> Panic p)"
proof (cases "chooseNumber (length weight) amount (Int64 sz)")
  case (Ok k)
  then have k: "k \<le> length weight" by (rule chooseNumber_le)
  have "\<forall>j. 0 \<le> j \<and> j < k \<longrightarrow> j < length (GetTop (makeSortTable weight) k)
          \<and> serial (GetTop (makeSortTable weight) k ! j) < length producersAddr"
  proof (intro allI impI)
    fix j assume "0 \<le> j \<and> j < k"
    then have j: "j < length (GetTop (makeSortTable weight) k)"
      by (simp add: GetTop_length [OF k])
    then have "GetTop (makeSortTable weight) k ! j \<in> set (GetTop (makeSortTable weight) k)"
      by (rule nth_mem)
    then have "GetTop (makeSortTable weight) k ! j \<in> set (sort_key rankKey (makeSortTable weight))"
      unfolding GetTop_def by (rule in_set_takeD)
    then have "serial (GetTop (makeSortTable weight) k ! j) < length weight"
      using ranked_entry by blast
    with j assms
    show "j < length (GetTop (makeSortTable weight) k)
          \<and> serial (GetTop (makeSortTable weight) k ! j) < length producersAddr"
      by simp
  qed
  then have "collectTop producersAddr (GetTop (makeSortTable weight) k) k 0 [] =
      Ok (map (\<lambda>e. \<lparr>Addr = producersAddr ! serial e, Weight = num e\<rparr>)
            (GetTop (makeSortTable weight) k))"
    by (simp add: collectTop_eq GetTop_def)
  with Ok show ?thesis by (simp add: rankProducers_def)
qed (simp_all add: rankProducers_def)

end
